theory Spec2Isabelle
  imports Main
begin

section \<open>Exceptions that can reach the caller\<close>

text \<open>
  The client raises two exception classes of its own, \<open>ApiRequestException(e)\<close>
  (lines 74 and 81 of \<open>api_client.py\<close>, both wrapping a source exception) and
  \<open>UnexpectedResponse\<close> (line 75). The other constructors are the Python exceptions
  that the code lets through: pydantic's \<open>ValidationError\<close> with its diagnostics, the
  \<open>JSONDecodeError\<close> of \<open>response.json()\<close>, the \<open>KeyError\<close>, \<open>IndexError\<close> and
  \<open>ValueError\<close> of \<open>str.format\<close>, and any other subclass of \<open>Exception\<close>, by its
  class name. The two classes are declared in \<open>fastapi_client/exceptions.py\<close>; here
  they are the constructors the code calls. Exceptions outside \<open>Exception\<close> (a keyboard
  interrupt), which \<open>except Exception\<close> does not catch, are not modelled.
\<close>

type_synonym diagnostics = "string list"

datatype exn =
    ApiRequestException exn
  | UnexpectedResponse int string "(string \<times> string) list"
  | ValidationError diagnostics
  | JSONDecodeError
  | KeyError string
  | IndexError
  | ValueError
  | OtherException string

text \<open>The exceptions of the client's own, those of \<open>fastapi_client.exceptions\<close>.\<close>

fun client_error :: "exn \<Rightarrow> bool" where
  "client_error (ApiRequestException e) = True"
| "client_error (UnexpectedResponse code body hs) = True"
| "client_error e = False"

section \<open>Path templates: \<open>url.format(**path_params)\<close>\<close>

text \<open>
  \<open>str.format\<close> is modelled after CPython's \<open>unicode_format.h\<close>: the template is read
  left to right by \<open>MarkupIterator_next\<close>, which returns the literal text up to the next
  replacement field and that field, parsed by \<open>parse_field\<close>. The values of
  \<open>path_params\<close> have type \<open>Any\<close>; what their attribute and index lookups, conversions and
  \<open>__format__\<close> methods do is given by an \<open>object_protocol\<close>.
\<close>

record 'a object_protocol =
  py_getpath :: "'a \<Rightarrow> string \<Rightarrow> exn + 'a"
  py_convert :: "'a \<Rightarrow> char \<Rightarrow> exn + 'a"
  py_format :: "'a \<Rightarrow> string \<Rightarrow> exn + string"

record field =
  field_name :: string
  conversion :: "char option"
  format_spec :: string
  format_spec_needs_expanding :: bool

definition is_brace :: "char \<Rightarrow> bool" where
  "is_brace c = (c = CHR ''{'' \<or> c = CHR ''}'')"

text \<open>The field name ends at \<open>}\<close>, \<open>:\<close> or \<open>!\<close> outside square brackets.\<close>

fun scan_field_name :: "bool \<Rightarrow> string \<Rightarrow> string \<Rightarrow> exn + (string \<times> char \<times> string)" where
  "scan_field_name in_bracket acc [] = Inl ValueError"
| "scan_field_name in_bracket acc (c # cs) =
    (if in_bracket then scan_field_name (c \<noteq> CHR '']'') (acc @ [c]) cs
     else if c = CHR ''{'' then Inl ValueError
     else if c = CHR ''['' then scan_field_name True (acc @ [c]) cs
     else if c = CHR ''}'' \<or> c = CHR '':'' \<or> c = CHR ''!'' then Inr (acc, c, cs)
     else scan_field_name False (acc @ [c]) cs)"

text \<open>The format spec ends at the brace that closes the field; nested braces are counted.\<close>

fun scan_format_spec :: "nat \<Rightarrow> bool \<Rightarrow> string \<Rightarrow> string \<Rightarrow> exn + (string \<times> bool \<times> string)" where
  "scan_format_spec count expanding acc [] = Inl ValueError"
| "scan_format_spec count expanding acc (c # cs) =
    (if c = CHR ''{'' then scan_format_spec (count + 1) True (acc @ [c]) cs
     else if c = CHR ''}'' then
       (if count = 1 then Inr (acc, expanding, cs)
        else scan_format_spec (count - 1) expanding (acc @ [c]) cs)
     else scan_format_spec count expanding (acc @ [c]) cs)"

definition parse_field :: "string \<Rightarrow> exn + (field \<times> string)" where
  "parse_field s =
    (case scan_field_name False [] s of
       Inl e \<Rightarrow> Inl e
     | Inr (name, c, rest) \<Rightarrow>
         if c = CHR ''}'' then
           Inr (\<lparr>field_name = name, conversion = None, format_spec = [],
                 format_spec_needs_expanding = False\<rparr>, rest)
         else if c = CHR ''!'' then
           (case rest of
              [] \<Rightarrow> Inl ValueError
            | conv # rest1 \<Rightarrow>
                (case rest1 of
                   [] \<Rightarrow> Inl ValueError
                 | c2 # rest2 \<Rightarrow>
                     if c2 = CHR ''}'' then
                       Inr (\<lparr>field_name = name,
                             conversion = (if conv = CHR 0x00 then None else Some conv),
                             format_spec = [], format_spec_needs_expanding = False\<rparr>, rest2)
                     else if c2 \<noteq> CHR '':'' then Inl ValueError
                     else
                       (case scan_format_spec 1 False [] rest2 of
                          Inl e \<Rightarrow> Inl e
                        | Inr (spec, expanding, rest3) \<Rightarrow>
                            Inr (\<lparr>field_name = name,
                                  conversion = (if conv = CHR 0x00 then None else Some conv),
                                  format_spec = spec,
                                  format_spec_needs_expanding = expanding\<rparr>, rest3))))
         else
           (case scan_format_spec 1 False [] rest of
              Inl e \<Rightarrow> Inl e
            | Inr (spec, expanding, rest3) \<Rightarrow>
                Inr (\<lparr>field_name = name, conversion = None, format_spec = spec,
                      format_spec_needs_expanding = expanding\<rparr>, rest3)))"

text \<open>
  One step of the iterator: \<open>None\<close> at the end of the template, otherwise the literal
  text, the field that follows it (if any) and the rest of the template. A doubled
  brace is a literal brace; a single \<open>}\<close>, or a single brace at the end, is a
  \<open>ValueError\<close>.
\<close>

definition MarkupIterator_next :: "string \<Rightarrow> exn + (string \<times> field option \<times> string) option" where
  "MarkupIterator_next s =
    (if s = [] then Inr None
     else
       (case dropWhile (\<lambda>c. \<not> is_brace c) s of
          [] \<Rightarrow> Inr (Some (s, None, []))
        | c # r \<Rightarrow>
            (case r of
               [] \<Rightarrow> Inl ValueError
             | c' # r' \<Rightarrow>
                 if c' = c then
                   Inr (Some (takeWhile (\<lambda>c. \<not> is_brace c) s @ [c], None, r'))
                 else if c = CHR ''}'' then Inl ValueError
                 else
                   (case parse_field r of
                      Inl e \<Rightarrow> Inl e
                    | Inr (f, rest) \<Rightarrow>
                        Inr (Some (takeWhile (\<lambda>c. \<not> is_brace c) s, Some f, rest))))))"

text \<open>
  \<open>get_integer\<close>: the value of a string of decimal digits, \<open>None\<close> when it is empty
  or has another character, \<open>ValueError\<close> when it exceeds \<open>PY_SSIZE_T_MAX\<close> (64-bit).
\<close>

definition PY_SSIZE_T_MAX :: int where
  "PY_SSIZE_T_MAX = 2 ^ 63 - 1"

definition is_digit :: "char \<Rightarrow> bool" where
  "is_digit c = (48 \<le> (of_char c :: int) \<and> (of_char c :: int) \<le> 57)"

definition digitval :: "char \<Rightarrow> int" where
  "digitval c = of_char c - 48"

fun get_integer_from :: "int \<Rightarrow> string \<Rightarrow> exn + int option" where
  "get_integer_from accumulator [] = Inr (Some accumulator)"
| "get_integer_from accumulator (c # cs) =
    (if \<not> is_digit c then Inr None
     else if accumulator > (PY_SSIZE_T_MAX - digitval c) div 10 then Inl ValueError
     else get_integer_from (accumulator * 10 + digitval c) cs)"

definition get_integer :: "string \<Rightarrow> exn + int option" where
  "get_integer s = (if s = [] then Inr None else get_integer_from 0 s)"

text \<open>
  The argument a field names. \<open>format\<close> is called with keyword arguments only, so an
  empty or numeric argument name indexes the empty tuple of positional arguments: an
  \<open>IndexError\<close>. A name that is no key of the mapping is a \<open>KeyError\<close>.
\<close>

definition arg_name :: "string \<Rightarrow> string" where
  "arg_name name = takeWhile (\<lambda>c. c \<noteq> CHR ''.'' \<and> c \<noteq> CHR ''['') name"

definition get_field_object :: "'a object_protocol \<Rightarrow> (string \<rightharpoonup> 'a) \<Rightarrow> string \<Rightarrow> exn + 'a" where
  "get_field_object ops mapping name =
    (case get_integer (arg_name name) of
       Inl e \<Rightarrow> Inl e
     | Inr (Some i) \<Rightarrow> Inl IndexError
     | Inr None \<Rightarrow>
         if arg_name name = [] then Inl IndexError
         else
           (case mapping (arg_name name) of
              None \<Rightarrow> Inl (KeyError (arg_name name))
            | Some obj \<Rightarrow>
                if dropWhile (\<lambda>c. c \<noteq> CHR ''.'' \<and> c \<noteq> CHR ''['') name = [] then Inr obj
                else py_getpath ops obj (dropWhile (\<lambda>c. c \<noteq> CHR ''.'' \<and> c \<noteq> CHR ''['') name)))"

definition do_conversion :: "'a object_protocol \<Rightarrow> 'a \<Rightarrow> char \<Rightarrow> exn + 'a" where
  "do_conversion ops obj c =
    (if c = CHR ''r'' \<or> c = CHR ''s'' \<or> c = CHR ''a'' then py_convert ops obj c
     else Inl ValueError)"

text \<open>
  A field is rendered in this order: the object is looked up, converted, the format spec
  is expanded when it has fields of its own (by \<open>expand\<close>, one level deeper), and the
  object's \<open>__format__\<close> is called.
\<close>

definition output_markup ::
  "(string \<Rightarrow> exn + string) \<Rightarrow> 'a object_protocol \<Rightarrow> (string \<rightharpoonup> 'a) \<Rightarrow> field \<Rightarrow> exn + string" where
  "output_markup expand ops mapping f =
    (case get_field_object ops mapping (field_name f) of
       Inl e \<Rightarrow> Inl e
     | Inr obj \<Rightarrow>
         (case (case conversion f of None \<Rightarrow> Inr obj | Some c \<Rightarrow> do_conversion ops obj c) of
            Inl e \<Rightarrow> Inl e
          | Inr obj' \<Rightarrow>
              (case (if format_spec_needs_expanding f then expand (format_spec f)
                     else Inr (format_spec f)) of
                 Inl e \<Rightarrow> Inl e
               | Inr spec \<Rightarrow> py_format ops obj' spec)))"

lemma scan_field_name_length:
  "scan_field_name b acc s = Inr (name, c, rest) \<Longrightarrow> length rest < length s"
  by (induction b acc s rule: scan_field_name.induct) (auto split: if_splits)

lemma scan_format_spec_length:
  "scan_format_spec n b acc s = Inr (spec, ex, rest) \<Longrightarrow> length rest < length s"
  by (induction n b acc s rule: scan_format_spec.induct) (auto split: if_splits)

lemma parse_field_length:
  "parse_field s = Inr (f, rest) \<Longrightarrow> length rest < length s"
  unfolding parse_field_def
  by (auto split: sum.splits prod.splits if_splits list.splits
           dest!: scan_field_name_length scan_format_spec_length)

lemma dropWhile_length_le: "dropWhile P s = r \<Longrightarrow> length r \<le> length s"
  by (auto simp: length_dropWhile_le)

lemma MarkupIterator_next_length:
  "MarkupIterator_next s = Inr (Some (lit, fo, rest)) \<Longrightarrow> length rest < length s"
  unfolding MarkupIterator_next_def
  by (auto split: sum.splits prod.splits if_splits list.splits
           dest!: parse_field_length dropWhile_length_le)

function do_markup ::
  "(string \<Rightarrow> exn + string) \<Rightarrow> 'a object_protocol \<Rightarrow> (string \<rightharpoonup> 'a) \<Rightarrow> string \<Rightarrow> exn + string" where
  "do_markup expand ops mapping s =
    (case MarkupIterator_next s of
       Inl e \<Rightarrow> Inl e
     | Inr None \<Rightarrow> Inr []
     | Inr (Some (lit, fo, rest)) \<Rightarrow>
         (case (case fo of None \<Rightarrow> Inr [] | Some f \<Rightarrow> output_markup expand ops mapping f) of
            Inl e \<Rightarrow> Inl e
          | Inr out \<Rightarrow>
              (case do_markup expand ops mapping rest of
                 Inl e \<Rightarrow> Inl e
               | Inr out' \<Rightarrow> Inr (lit @ out @ out'))))"
  by pat_completeness auto
termination
  by (relation "measure (\<lambda>(expand, ops, mapping, s). length s)")
     (auto dest: MarkupIterator_next_length)

primrec build_string ::
  "nat \<Rightarrow> 'a object_protocol \<Rightarrow> (string \<rightharpoonup> 'a) \<Rightarrow> string \<Rightarrow> exn + string" where
  "build_string 0 ops mapping = (\<lambda>s. Inl ValueError)"
| "build_string (Suc depth) ops mapping = do_markup (build_string depth ops mapping) ops mapping"

definition str_format :: "'a object_protocol \<Rightarrow> (string \<rightharpoonup> 'a) \<Rightarrow> string \<Rightarrow> exn + string" where
  "str_format ops mapping s = build_string 2 ops mapping s"

text \<open>
  The replacement fields of a template, in the order the iterator meets them, up to the
  end or the first syntax error; and its placeholders: the argument names of these
  fields and of the fields nested in their format specs.
\<close>

function fields_of :: "string \<Rightarrow> field list" where
  "fields_of s =
    (case MarkupIterator_next s of
       Inl e \<Rightarrow> []
     | Inr None \<Rightarrow> []
     | Inr (Some (lit, fo, rest)) \<Rightarrow>
         (case fo of None \<Rightarrow> [] | Some f \<Rightarrow> [f]) @ fields_of rest)"
  by pat_completeness auto
termination
  by (relation "measure length") (auto dest: MarkupIterator_next_length)

definition placeholders :: "string \<Rightarrow> string list" where
  "placeholders s =
     concat (map (\<lambda>f. arg_name (field_name f) #
                    (if format_spec_needs_expanding f
                     then map (\<lambda>g. arg_name (field_name g)) (fields_of (format_spec f))
                     else []))
               (fields_of s))"

declare do_markup.simps [simp del] fields_of.simps [simp del]



section \<open>Requests, responses and the middleware protocol\<close>

text \<open>
  \<open>AsyncRequest(method, url, **kwargs)\<close> keeps the method, the URL and the remaining
  options, passed through as they are; what httpx does with them when it builds the
  object (normalising or rejecting a URL) is outside the model. An \<open>AsyncResponse\<close> has its status code, its
  content and headers, and the outcome of its \<open>json()\<close> method: the parsed body, or the
  exception that \<open>json()\<close> raises on a body that is not JSON.
\<close>

record 'k AsyncRequest =
  http_method :: string
  url :: string
  kwargs :: 'k

record 'j AsyncResponse =
  status_code :: int
  content :: string
  headers :: "(string \<times> string) list"
  json :: "exn + 'j"

text \<open>
  An awaited call runs in the world outside the client (the network, whatever the
  stages keep) and either raises or returns: \<open>Send\<close> and \<open>MiddlewareT\<close> of lines 21-22.
  The stages and the transport act on that world, not on the client object.
\<close>

type_synonym ('k, 'j, 'w) Send =
  "'k AsyncRequest \<Rightarrow> 'w \<Rightarrow> (exn + 'j AsyncResponse) \<times> 'w"

type_synonym ('k, 'j, 'w) MiddlewareT =
  "'k AsyncRequest \<Rightarrow> ('k, 'j, 'w) Send \<Rightarrow> 'w \<Rightarrow> (exn + 'j AsyncResponse) \<times> 'w"

definition BaseMiddleware :: "('k, 'j, 'w) MiddlewareT" where
  "BaseMiddleware request call_next = call_next request"

section \<open>The client\<close>

record ('k, 'j, 'w) ApiClient =
  host :: "string option"
  middleware :: "('k, 'j, 'w) MiddlewareT"
  async_client :: "('k, 'j, 'w) Send"

text \<open>The program state: the client object \<open>self\<close> and the world outside it.\<close>

record ('k, 'j, 'w) state =
  self :: "('k, 'j, 'w) ApiClient"
  world :: 'w

definition init :: "string option \<Rightarrow> ('k, 'j, 'w) Send \<Rightarrow> ('k, 'j, 'w) ApiClient" where
  "init host_arg transport =
     \<lparr>host = host_arg, middleware = BaseMiddleware, async_client = transport\<rparr>"

definition HTTP_200_OK :: int where
  "HTTP_200_OK = 200"

text \<open>
  Modelled from the spec: \<open>UnexpectedResponse.for_response\<close> is defined in
  \<open>fastapi_client/exceptions.py\<close>, which is not among the sources; by section 4.3 of the
  spec the exception carries the status code and the response's body and headers.
\<close>

definition for_response :: "'j AsyncResponse \<Rightarrow> exn" where
  "for_response response =
     UnexpectedResponse (status_code response) (content response) (headers response)"

text \<open>\<open>send_inner\<close> (lines 77-82): every exception of the transport is wrapped.\<close>

definition send_inner :: "('k, 'j, 'w) ApiClient \<Rightarrow> ('k, 'j, 'w) Send" where
  "send_inner slf request w =
    (case async_client slf request w of
       (Inl e, w') \<Rightarrow> (Inl (ApiRequestException e), w')
     | (Inr response, w') \<Rightarrow> (Inr response, w'))"

text \<open>
  The handler \<open>except ValidationError as e: raise ApiRequestException(e)\<close> of lines
  73-74: a \<open>ValidationError\<close> is wrapped, any other exception passes.
\<close>

fun except_ValidationError :: "exn \<Rightarrow> exn" where
  "except_ValidationError (ValidationError d) = ApiRequestException (ValidationError d)"
| "except_ValidationError e = e"

text \<open>
  \<open>send\<close> (lines 68-75). \<open>ResultMaker type_\<close> stands for \<open>_ResultMaker[type_]\<close>: an
  exception when pydantic cannot build the model, otherwise the model, which validates a
  parsed body and returns its \<open>result\<close> attribute or raises. \<open>type_\<close> is \<open>None\<close> or a
  type. The expression of line 72 evaluates \<open>_ResultMaker[type_]\<close>, then
  \<open>response.json()\<close>, then the model.
\<close>

definition send ::
  "('t option \<Rightarrow> exn + ('j \<Rightarrow> exn + 'v)) \<Rightarrow> 'k AsyncRequest \<Rightarrow> 't option \<Rightarrow>
   ('k, 'j, 'w) state \<Rightarrow> (exn + 'v) \<times> ('k, 'j, 'w) state" where
  "send ResultMaker request type_arg \<sigma> =
    (case middleware (self \<sigma>) request (send_inner (self \<sigma>)) (world \<sigma>) of
       (Inl e, w') \<Rightarrow> (Inl e, \<sigma>\<lparr>world := w'\<rparr>)
     | (Inr response, w') \<Rightarrow>
         if status_code response = HTTP_200_OK then
           (case (case ResultMaker type_arg of
                    Inl e \<Rightarrow> Inl e
                  | Inr model \<Rightarrow>
                      (case json response of Inl e \<Rightarrow> Inl e | Inr body \<Rightarrow> model body)) of
              Inl e \<Rightarrow> (Inl (except_ValidationError e), \<sigma>\<lparr>world := w'\<rparr>)
            | Inr result \<Rightarrow> (Inr result, \<sigma>\<lparr>world := w'\<rparr>))
         else (Inl (for_response response), \<sigma>\<lparr>world := w'\<rparr>))"

text \<open>\<open>request\<close> (lines 48-55); \<open>self.host or ""\<close> is the empty string for no host.\<close>

definition host_or_empty :: "string option \<Rightarrow> string" where
  "host_or_empty h = (case h of None \<Rightarrow> [] | Some s \<Rightarrow> s)"

definition request ::
  "('t option \<Rightarrow> exn + ('j \<Rightarrow> exn + 'v)) \<Rightarrow> 'a object_protocol \<Rightarrow> 't option \<Rightarrow> string \<Rightarrow>
   string \<Rightarrow> (string \<rightharpoonup> 'a) option \<Rightarrow> 'k \<Rightarrow>
   ('k, 'j, 'w) state \<Rightarrow> (exn + 'v) \<times> ('k, 'j, 'w) state" where
  "request ResultMaker ops type_arg method_arg url_arg path_params kwargs_arg \<sigma> =
    (case str_format ops (case path_params of None \<Rightarrow> Map.empty | Some p \<Rightarrow> p) url_arg of
       Inl e \<Rightarrow> (Inl e, \<sigma>)
     | Inr path \<Rightarrow>
         send ResultMaker
           \<lparr>http_method = method_arg, url = host_or_empty (host (self \<sigma>)) @ path,
            kwargs = kwargs_arg\<rparr>
           type_arg \<sigma>)"

text \<open>
  \<open>add_middleware\<close> (lines 84-93): the new chain head calls the new stage with a
  \<open>call_next\<close> that calls the previous head.
\<close>

definition add_middleware ::
  "('k, 'j, 'w) MiddlewareT \<Rightarrow> ('k, 'j, 'w) state \<Rightarrow> ('k, 'j, 'w) state" where
  "add_middleware mw \<sigma> =
    (let current_middleware = middleware (self \<sigma>) in
     \<sigma>\<lparr>self := (self \<sigma>)\<lparr>middleware :=
         (\<lambda>request call_next.
            mw request (\<lambda>request'. current_middleware request' call_next))\<rparr>\<rparr>)"

section \<open>Example instances\<close>

text \<open>
  Concrete instances on which the theorems below are evaluated: parsed JSON values, a
  \<open>ResultMaker\<close> for two field types that accepts exactly the values of the type (and
  anything for \<open>None\<close>, giving \<open>None\<close>), transports that answer or fail and log the
  requests they are sent, and a client as \<open>__init__\<close> builds it.
\<close>

datatype json = JNull | JBool bool | JNumber int | JString string
  | JArray "json list" | JObject "(string \<times> json) list"

datatype example_type = TInt | TStr

fun validate_int :: "json \<Rightarrow> exn + json" where
  "validate_int (JNumber n) = Inr (JNumber n)"
| "validate_int j = Inl (ValidationError [''result: value is not a valid integer''])"

fun validate_str :: "json \<Rightarrow> exn + json" where
  "validate_str (JString s) = Inr (JString s)"
| "validate_str j = Inl (ValidationError [''result: str type expected''])"

fun example_ResultMaker :: "example_type option \<Rightarrow> exn + (json \<Rightarrow> exn + json)" where
  "example_ResultMaker None = Inr (\<lambda>j. Inr JNull)"
| "example_ResultMaker (Some TInt) = Inr validate_int"
| "example_ResultMaker (Some TStr) = Inr validate_str"

text \<open>
  Objects that are their own text: whatever the attribute path, the conversion and the
  format spec, they render as themselves (as a \<open>str\<close> does in a plain field).
\<close>

definition plain_protocol :: "string object_protocol" where
  "plain_protocol =
     \<lparr>py_getpath = (\<lambda>v path. Inr v), py_convert = (\<lambda>v c. Inr v), py_format = (\<lambda>v spec. Inr v)\<rparr>"

definition transport_returning ::
  "'j AsyncResponse \<Rightarrow> ('k, 'j, 'k AsyncRequest list) Send" where
  "transport_returning response req log = (Inr response, log @ [req])"


definition example_state ::
  "('k, 'j, 'k AsyncRequest list) Send \<Rightarrow> ('k, 'j, 'k AsyncRequest list) state" where
  "example_state transport =
     \<lparr>self = init (Some ''https://api.example.com'') transport, world = []\<rparr>"

definition example_request :: "unit AsyncRequest" where
  "example_request =
     \<lparr>http_method = ''GET'', url = ''https://api.example.com/pets/42'', kwargs = ()\<rparr>"

definition response_42 :: "int \<Rightarrow> json AsyncResponse" where
  "response_42 code =
     \<lparr>status_code = code, content = ''42'', headers = [], json = Inr (JNumber 42)\<rparr>"

definition response_empty :: "int \<Rightarrow> json AsyncResponse" where
  "response_empty code =
     \<lparr>status_code = code, content = [], headers = [], json = Inl JSONDecodeError\<rparr>"

text \<open>
  A stage that appends its marker to the request's options on the way in and to the
  response's headers on the way out.
\<close>

definition marker_stage :: "string \<Rightarrow> (string list, 'j, 'w) MiddlewareT" where
  "marker_stage m req call_next w =
    (case call_next (req\<lparr>kwargs := kwargs req @ [m]\<rparr>) w of
       (Inl e, w') \<Rightarrow> (Inl e, w')
     | (Inr response, w') \<Rightarrow>
         (Inr (response\<lparr>headers := headers response @ [(''X-Marker'', m)]\<rparr>), w'))"


section \<open>Decoding: the outcomes of \<open>send\<close>\<close>

lemma example_chain:
  "middleware (self (example_state transport)) req
     (send_inner (self (example_state transport))) (world (example_state transport)) =
   send_inner (self (example_state transport)) req []"
  by (simp add: example_state_def init_def BaseMiddleware_def)

lemma example_send_inner_returning:
  "send_inner (self (example_state (transport_returning response))) req log =
   (Inr response, log @ [req])"
  by (simp add: send_inner_def example_state_def init_def transport_returning_def)




text \<open>
  C2. When the chain yields a response whose status code is not 200, \<open>send\<close> raises
  \<open>UnexpectedResponse\<close> with that status code (and the body and headers), whatever the
  code is, the expected type is and \<open>json()\<close> would do: the body is not decoded.
\<close>

theorem send_non_200_unexpected_response:
  assumes "middleware (self \<sigma>) req (send_inner (self \<sigma>)) (world \<sigma>) = (Inr response, w')"
    and "status_code response \<noteq> 200"
  shows "send ResultMaker req type_arg \<sigma> =
           (Inl (UnexpectedResponse (status_code response) (content response) (headers response)),
            \<sigma>\<lparr>world := w'\<rparr>)"
  using assms by (simp add: send_def HTTP_200_OK_def for_response_def)

theorem send_non_200_unexpected_response_witness:
  "send example_ResultMaker example_request (Some TInt)
     (example_state (transport_returning (response_42 404))) =
   (Inl (UnexpectedResponse 404 ''42'' []),
    (example_state (transport_returning (response_42 404)))\<lparr>world := [example_request]\<rparr>)"
  using send_non_200_unexpected_response [where response = "response_42 404"
      and \<sigma> = "example_state (transport_returning (response_42 404))"
      and req = example_request and w' = "[example_request]"
      and ResultMaker = example_ResultMaker and type_arg = "Some TInt"]
  by (simp add: example_chain example_send_inner_returning response_42_def)



text \<open>
  C8. The code has no branch for \<open>type_\<close> being \<open>None\<close>: \<open>response.json()\<close> is called
  all the same. For a request that expects no body, a 200 response with an empty body
  makes \<open>send\<close> raise the \<open>JSONDecodeError\<close> of \<open>json()\<close> instead of returning \<open>None\<close>,
  even with a model for \<open>None\<close> that accepts every parsed body.
\<close>

theorem send_None_type_empty_body:
  "send example_ResultMaker example_request None
     (example_state (transport_returning (response_empty 200))) =
   (Inl JSONDecodeError,
    (example_state (transport_returning (response_empty 200)))\<lparr>world := [example_request]\<rparr>)"
  by (simp add: send_def HTTP_200_OK_def example_chain example_send_inner_returning
        response_empty_def)




section \<open>The middleware chain and the client object\<close>

text \<open>
  C4. After \<open>add_middleware(M1)\<close> and then \<open>add_middleware(M2)\<close>, the chain head calls
  \<open>M2\<close> with the request; the \<open>call_next\<close> given to \<open>M2\<close> calls \<open>M1\<close>, whose
  \<open>call_next\<close> calls the previous head. So \<open>M2\<close> sees the request first and the
  response, as \<open>M1\<close> returned it, last. The stage that sends is unchanged.
\<close>

theorem add_middleware_onion_order:
  "middleware (self (add_middleware M2 (add_middleware M1 \<sigma>))) req call_next =
     M2 req (\<lambda>r2. M1 r2 (\<lambda>r1. middleware (self \<sigma>) r1 call_next)) \<and>
   send_inner (self (add_middleware M2 (add_middleware M1 \<sigma>))) = send_inner (self \<sigma>)"
  by (simp add: add_middleware_def send_inner_def fun_eq_iff)

text \<open>
  Three marker stages added in the order A, B, C: the transport receives the request
  marked C, B, A, and the response comes back marked A, B, C.
\<close>

lemma three_marker_stages_order:
  "middleware
     (self (add_middleware (marker_stage ''C'') (add_middleware (marker_stage ''B'')
        (add_middleware (marker_stage ''A'')
           (example_state (transport_returning (response_42 200)))))))
     \<lparr>http_method = ''GET'', url = ''https://api.example.com/pets/42'', kwargs = []\<rparr>
     (send_inner (self (example_state (transport_returning (response_42 200))))) [] =
   (Inr \<lparr>status_code = 200, content = ''42'',
         headers = [(''X-Marker'', ''A''), (''X-Marker'', ''B''), (''X-Marker'', ''C'')],
         json = Inr (JNumber 42)\<rparr>,
    [\<lparr>http_method = ''GET'', url = ''https://api.example.com/pets/42'',
      kwargs = [''C'', ''B'', ''A'']\<rparr>])"
  by (simp add: add_middleware_def marker_stage_def example_state_def init_def
        BaseMiddleware_def send_inner_def transport_returning_def response_42_def)

text \<open>
  C10. \<open>request\<close> and \<open>send\<close> leave the client object as it was, whether they return
  or raise; \<open>add_middleware\<close> replaces the chain head and nothing else.
\<close>

theorem client_configuration_frame:
  "self (snd (request ResultMaker ops type_arg method_arg url_arg path_params kwargs_arg \<sigma>)) = self \<sigma> \<and>
   self (snd (send ResultMaker req type_arg \<sigma>)) = self \<sigma> \<and>
   host (self (add_middleware mw \<sigma>)) = host (self \<sigma>) \<and>
   async_client (self (add_middleware mw \<sigma>)) = async_client (self \<sigma>) \<and>
   world (add_middleware mw \<sigma>) = world \<sigma> \<and>
   middleware (self (add_middleware mw \<sigma>)) =
     (\<lambda>r call_next. mw r (\<lambda>r'. middleware (self \<sigma>) r' call_next))"
proof -
  have s: "self (snd (send ResultMaker r t \<sigma>)) = self \<sigma>" for r t
    by (simp add: send_def split: prod.splits sum.splits)
  have "self (snd (request ResultMaker ops type_arg method_arg url_arg path_params kwargs_arg \<sigma>)) = self \<sigma>"
    by (simp add: request_def s split: sum.splits)
  then show ?thesis
    by (simp add: s add_middleware_def)
qed

section \<open>Resolving the URL\<close>

lemma get_field_object_missing:
  "mapping (arg_name name) = None \<Longrightarrow> \<exists>e. get_field_object ops mapping name = Inl e"
  by (simp add: get_field_object_def split: sum.splits option.splits)

lemma output_markup_missing:
  assumes "mapping (arg_name (field_name f)) = None"
  shows "\<exists>e. output_markup expand ops mapping f = Inl e"
proof -
  obtain e where "get_field_object ops mapping (field_name f) = Inl e"
    using get_field_object_missing [of mapping "field_name f" ops] assms by blast
  then show ?thesis by (simp add: output_markup_def)
qed

lemma do_markup_field_fails:
  "f \<in> set (fields_of s) \<Longrightarrow> output_markup expand ops mapping f = Inl e \<Longrightarrow>
   \<exists>e'. do_markup expand ops mapping s = Inl e'"
proof (induction s rule: fields_of.induct)
  case (1 s)
  show ?case
  proof (cases "MarkupIterator_next s")
    case (Inl e0)
    then show ?thesis by (subst do_markup.simps) simp
  next
    case (Inr step)
    show ?thesis
    proof (cases step)
      case None
      with Inr "1.prems" show ?thesis by (simp add: fields_of.simps [of s])
    next
      case (Some t)
      obtain lit fo rest where t: "t = (lit, fo, rest)" by (cases t)
      have next_s: "MarkupIterator_next s = Inr (Some (lit, fo, rest))"
        using Inr Some t by simp
      have mem: "f \<in> set ((case fo of None \<Rightarrow> [] | Some g \<Rightarrow> [g]) @ fields_of rest)"
        using "1.prems"(1) next_s by (simp add: fields_of.simps [of s])
      show ?thesis
      proof (cases "fo = Some f")
        case True
        with next_s "1.prems"(2) show ?thesis by (subst do_markup.simps) simp
      next
        case False
        with mem have "f \<in> set (fields_of rest)" by (cases fo) auto
        then obtain e' where "do_markup expand ops mapping rest = Inl e'"
          using "1.IH" [OF next_s refl refl] "1.prems"(2) by blast
        with next_s show ?thesis
          by (subst do_markup.simps) (simp split: sum.splits option.splits)
      qed
    qed
  qed
qed

lemma output_markup_spec_fails:
  assumes "format_spec_needs_expanding f" and "expand (format_spec f) = Inl e"
  shows "\<exists>e'. output_markup expand ops mapping f = Inl e'"
  using assms by (simp add: output_markup_def split: sum.splits option.splits)

lemma str_format_missing:
  assumes "n \<in> set (placeholders s)" and "mapping n = None"
  shows "\<exists>e. str_format ops mapping s = Inl e"
proof -
  from assms(1) obtain f where f: "f \<in> set (fields_of s)"
    and n: "n = arg_name (field_name f) \<or>
            (format_spec_needs_expanding f \<and>
             (\<exists>g \<in> set (fields_of (format_spec f)). n = arg_name (field_name g)))"
    by (auto simp: placeholders_def split: if_splits)
  have "\<exists>e. output_markup (build_string 1 ops mapping) ops mapping f = Inl e"
    using n
  proof
    assume "n = arg_name (field_name f)"
    with assms(2) show ?thesis
      using output_markup_missing [of mapping f "build_string 1 ops mapping" ops] by simp
  next
    assume nested: "format_spec_needs_expanding f \<and>
             (\<exists>g \<in> set (fields_of (format_spec f)). n = arg_name (field_name g))"
    then obtain g where g: "g \<in> set (fields_of (format_spec f))" "n = arg_name (field_name g)"
      by blast
    obtain e where "output_markup (build_string 0 ops mapping) ops mapping g = Inl e"
      using output_markup_missing [of mapping g "build_string 0 ops mapping" ops] assms(2) g(2)
      by auto
    then obtain e' where "do_markup (build_string 0 ops mapping) ops mapping (format_spec f) = Inl e'"
      using do_markup_field_fails [OF g(1)] by blast
    then have "build_string 1 ops mapping (format_spec f) = Inl e'" by simp
    with nested show ?thesis by (blast intro: output_markup_spec_fails)
  qed
  then obtain e where "output_markup (build_string 1 ops mapping) ops mapping f = Inl e" ..
  from do_markup_field_fails [OF f this] show ?thesis
    by (simp add: str_format_def numeral_2_eq_2)
qed















lemma str_format_pets_id:
  "str_format ops mapping ''/pets/{id}'' =
    (case mapping ''id'' of
       None \<Rightarrow> Inl (KeyError ''id'')
     | Some v \<Rightarrow> (case py_format ops v [] of Inl e \<Rightarrow> Inl e | Inr r \<Rightarrow> Inr (''/pets/'' @ r)))"
  by (simp add: str_format_def numeral_2_eq_2 do_markup.simps MarkupIterator_next_def
        is_brace_def parse_field_def output_markup_def get_field_object_def arg_name_def
        get_integer_def is_digit_def split: option.splits sum.splits)






text \<open>
  C6. When the template has a placeholder (a replacement field, or a field nested in a
  format spec) whose name the mapping does not supply, formatting raises, \<open>request\<close>
  raises that exception and changes nothing: no request is built, no stage and no
  transport is called.
\<close>

theorem request_missing_placeholder:
  assumes "n \<in> set (placeholders url_arg)"
    and "(case path_params of None \<Rightarrow> Map.empty | Some p \<Rightarrow> p) n = None"
  shows "\<exists>e. str_format ops (case path_params of None \<Rightarrow> Map.empty | Some p \<Rightarrow> p) url_arg = Inl e \<and>
             request ResultMaker ops type_arg method_arg url_arg path_params kwargs_arg \<sigma> =
               (Inl e, \<sigma>)"
proof -
  obtain e where "str_format ops (case path_params of None \<Rightarrow> Map.empty | Some p \<Rightarrow> p) url_arg = Inl e"
    using str_format_missing
            [of n url_arg "case path_params of None \<Rightarrow> Map.empty | Some p \<Rightarrow> p" ops] assms
    by blast
  then show ?thesis by (simp add: request_def)
qed

theorem request_missing_placeholder_witness:
  "request example_ResultMaker plain_protocol (Some TInt) ''GET'' ''/pets/{id}'' None ()
     (example_state (transport_returning (response_42 200))) =
   (Inl (KeyError ''id''), example_state (transport_returning (response_42 200)))"
proof -
  have a: "''id'' \<in> set (placeholders ''/pets/{id}'')"
    by (simp add: placeholders_def fields_of.simps MarkupIterator_next_def is_brace_def
          parse_field_def arg_name_def)
  have b: "(case None :: (string \<rightharpoonup> string) option of None \<Rightarrow> Map.empty | Some p \<Rightarrow> p) ''id'' = None"
    by simp
  obtain e where
    e: "str_format plain_protocol (case None of None \<Rightarrow> Map.empty | Some p \<Rightarrow> p) ''/pets/{id}'' = Inl e"
    and r: "request example_ResultMaker plain_protocol (Some TInt) ''GET'' ''/pets/{id}'' None ()
              (example_state (transport_returning (response_42 200))) =
            (Inl e, example_state (transport_returning (response_42 200)))"
    using request_missing_placeholder [OF a b, where ops = plain_protocol
        and ResultMaker = example_ResultMaker and type_arg = "Some TInt"
        and method_arg = "''GET''" and kwargs_arg = "()"
        and \<sigma> = "example_state (transport_returning (response_42 200))"]
    by blast
  from e have "e = KeyError ''id''" by (simp add: str_format_pets_id)
  with r show ?thesis by simp
qed

section \<open>The outcomes of \<open>request\<close>\<close>


lemma send_inner_raises_client_error:
  "send_inner c req w = (Inl e, w') \<Longrightarrow> client_error e"
  by (auto simp: send_inner_def split: prod.splits sum.splits)

lemma default_chain_raises_client_error:
  "BaseMiddleware req (send_inner c) w = (Inl e, w') \<Longrightarrow> client_error e"
  unfolding BaseMiddleware_def by (rule send_inner_raises_client_error)




end
